theory Spec2Isabelle
  imports Main
begin

section \<open>JavaScript values\<close>

text \<open>
  The functions of the wrapper are documented to take strings, but JavaScript lets a
  caller pass anything, and several claims are about \<open>null\<close>, \<open>undefined\<close> and the
  empty string. A value is therefore one of the following. Numbers are left out: no
  caller in the repository passes one, and their conversion to a string is
  floating-point formatting. A string is a list of 8-bit characters.
\<close>

datatype jsval =
    JUndefined
  | JNull
  | JBool bool
  | JString string
  | JArray "jsval list"
  | JObject "(string \<times> jsval) list"

text \<open>\<open>if (v)\<close>: the truthiness of a value.\<close>

fun truthy :: "jsval \<Rightarrow> bool" where
  "truthy JUndefined = False"
| "truthy JNull = False"
| "truthy (JBool b) = b"
| "truthy (JString s) = (s \<noteq> [])"
| "truthy (JArray xs) = True"
| "truthy (JObject kvs) = True"

text \<open>\<open>Array.prototype.join\<close> on the elements already converted to strings.\<close>

fun joinWith :: "string \<Rightarrow> string list \<Rightarrow> string" where
  "joinWith sep [] = []"
| "joinWith sep [x] = x"
| "joinWith sep (x # y # ys) = x @ sep @ joinWith sep (y # ys)"

text \<open>
  \<open>String(v)\<close>, the conversion a template literal and \<open>RegExp.prototype.test\<close> apply.
  Inside \<open>join\<close> an element that is \<open>null\<close> or \<open>undefined\<close> becomes the empty string.
\<close>

fun ToString :: "jsval \<Rightarrow> string"
  and joinElement :: "jsval \<Rightarrow> string"
  and joinElements :: "jsval list \<Rightarrow> string list" where
  "ToString JUndefined = ''undefined''"
| "ToString JNull = ''null''"
| "ToString (JBool b) = (if b then ''true'' else ''false'')"
| "ToString (JString s) = s"
| "ToString (JArray xs) = joinWith '','' (joinElements xs)"
| "ToString (JObject kvs) = ''[object Object]''"
| "joinElement JUndefined = []"
| "joinElement JNull = []"
| "joinElement (JBool b) = ToString (JBool b)"
| "joinElement (JString s) = ToString (JString s)"
| "joinElement (JArray xs) = ToString (JArray xs)"
| "joinElement (JObject kvs) = ToString (JObject kvs)"
| "joinElements [] = []"
| "joinElements (x # xs) = joinElement x # joinElements xs"

section \<open>The command model (LagoonCommand and GitCommand)\<close>

text \<open>
  Both classes hold \<open>this.baseCommand\<close> and \<open>this.args\<close>. A method that mutates
  \<open>this\<close> and returns it is a function from the command to the updated command.
\<close>

record command =
  baseCommand :: string
  args :: "jsval list"

definition new_GitCommand :: command where
  "new_GitCommand = \<lparr>baseCommand = ''git'', args = []\<rparr>"

definition new_LagoonCommand :: command where
  "new_LagoonCommand = \<lparr>baseCommand = ''lagoon'', args = []\<rparr>"

text \<open>\<open>this.args.push(x, y, ...)\<close>\<close>

definition push :: "command \<Rightarrow> jsval list \<Rightarrow> command" where
  "push c xs = c\<lparr>args := args c @ xs\<rparr>"

definition lsRemote :: "command \<Rightarrow> jsval \<Rightarrow> command" where
  "lsRemote c gitUrl =
     (if truthy gitUrl
      then c\<lparr>args := [JString ''ls-remote'', JString ''--heads'', gitUrl]\<rparr>
      else c)"

definition withInstance :: "command \<Rightarrow> jsval \<Rightarrow> command" where
  "withInstance c instance =
     (if truthy instance then push c [JString ''-l'', instance] else c)"

definition withProject :: "command \<Rightarrow> jsval \<Rightarrow> command" where
  "withProject c project =
     (if truthy project then push c [JString ''-p'', project] else c)"

definition withEnvironment :: "command \<Rightarrow> jsval \<Rightarrow> command" where
  "withEnvironment c environment =
     (if truthy environment then push c [JString ''-e'', environment] else c)"

definition withJsonOutput :: "command \<Rightarrow> command" where
  "withJsonOutput c = push c [JString ''--output-json'']"

definition withForce :: "command \<Rightarrow> command" where
  "withForce c = push c [JString ''--force'']"

definition listConfigs :: "command \<Rightarrow> command" where
  "listConfigs c = push c [JString ''config'', JString ''list'']"

definition listProjects :: "command \<Rightarrow> command" where
  "listProjects c = push c [JString ''list'', JString ''projects'']"

definition listEnvironments :: "command \<Rightarrow> command" where
  "listEnvironments c = push c [JString ''list'', JString ''environments'']"

definition listUsers :: "command \<Rightarrow> command" where
  "listUsers c = push c [JString ''list'', JString ''all-users'']"

text \<open>
  \<open>LagoonCommand.deleteEnvironment\<close> and \<open>LagoonCommand.deployBranch\<close>; the plain
  names belong to the functions of the API module below.
\<close>

definition LagoonCommand_deleteEnvironment :: "command \<Rightarrow> jsval \<Rightarrow> command" where
  "LagoonCommand_deleteEnvironment c environmentName =
     (if truthy environmentName
      then push c [JString ''delete'', JString ''environment'', JString ''--environment'',
                   environmentName]
      else c)"

definition LagoonCommand_deployBranch :: "command \<Rightarrow> jsval \<Rightarrow> command" where
  "LagoonCommand_deployBranch c branchName =
     (if truthy branchName
      then push c [JString ''deploy'', JString ''branch'', JString ''--branch'', branchName]
      else c)"

definition login :: "command \<Rightarrow> command" where
  "login c = push c [JString ''login'']"

definition ssh :: "command \<Rightarrow> jsval \<Rightarrow> command" where
  "ssh c cmd = (if truthy cmd then push c [JString ''ssh'', JString ''-C'', cmd] else c)"

definition getArgs :: "command \<Rightarrow> jsval list" where
  "getArgs c = args c"

definition getBaseCommand :: "command \<Rightarrow> string" where
  "getBaseCommand c = baseCommand c"

definition getCommandArray :: "command \<Rightarrow> jsval list" where
  "getCommandArray c = JString (baseCommand c) # args c"

text \<open>\<open>`${this.baseCommand} ${this.args.join(' ')}`\<close>\<close>

definition toString :: "command \<Rightarrow> string" where
  "toString c = baseCommand c @ '' '' @ joinWith '' '' (joinElements (args c))"

section \<open>Errors, results and effects\<close>

text \<open>
  A thrown value is an error object with a constructor and a message. A function that
  may throw returns \<open>error + 'a\<close>, with \<open>Inl\<close> for the throw.
\<close>

datatype error = Error string | TypeError string | SyntaxError string

fun message :: "error \<Rightarrow> string" where
  "message (Error m) = m"
| "message (TypeError m) = m"
| "message (SyntaxError m) = m"

text \<open>What the promisified \<open>execFile\<close> resolves to.\<close>

record exec_result =
  stdout :: string
  stderr :: string

text \<open>
  Everything the code does to the outside is an event, in the order it happens:
  a line on the console (the text without chalk's colours), a child process
  started with a program and an argument array, a call of the logger, a state
  of the spinner.
\<close>

datatype event =
    ConsoleLog string
  | ExecFile string "jsval list"
  | LogAction string string string
  | LogError string string error
  | SpinnerStart string
  | SpinnerSucceed string
  | SpinnerFail string

fun isExecFile :: "event \<Rightarrow> bool" where
  "isExecFile (ExecFile p a) = True"
| "isExecFile e = False"

fun isLogging :: "event \<Rightarrow> bool" where
  "isLogging (LogAction a c r) = True"
| "isLogging (LogError a c e) = True"
| "isLogging e = False"

text \<open>
  An asynchronous function that is awaited takes the state \<open>'w\<close> of the outside world
  and returns its result or its error, the events it caused and the new state.
\<close>

type_synonym ('a, 'w) action = "'w \<Rightarrow> (error + 'a) \<times> event list \<times> 'w"

section \<open>The executor (LagoonExecutor)\<close>

text \<open>
  The logger handed to the constructor is any value. \<open>None\<close> is a falsy one.
  Otherwise each of the two methods is \<open>None\<close> when
  \<open>typeof this.logger.m === 'function'\<close> is false, and else a function. A call of a
  method is recorded as an event, and the method returns (\<open>None\<close>) or throws
  (\<open>Some\<close> of the error); whether it throws may depend on the state of the world, as
  with a logger that appends to a file. \<open>this.execFileAsync\<close> starts the child
  process: it answers with the result or the error, and the new state of the world.
\<close>

record 'w logger_object =
  logAction :: "('w \<Rightarrow> string \<Rightarrow> string \<Rightarrow> string \<Rightarrow> error option) option"
  logError :: "('w \<Rightarrow> string \<Rightarrow> string \<Rightarrow> error \<Rightarrow> error option) option"

record 'w executor =
  logger :: "'w logger_object option"
  execFileAsync :: "'w \<Rightarrow> string \<Rightarrow> jsval list \<Rightarrow> (error + exec_result) \<times> 'w"

text \<open>
  The \<open>catch\<close> block of \<open>execute\<close>, entered with the error caught, the events so far
  and the world: \<open>logError\<close> is called if the logger has it, and then the error is
  thrown again, unless the call has thrown an error of its own.
\<close>

definition execute_catch :: "'w executor \<Rightarrow> command \<Rightarrow> string \<Rightarrow> error \<Rightarrow> event list \<Rightarrow> 'w \<Rightarrow> (error + exec_result) \<times> event list \<times> 'w" where
  "execute_catch ex command action error evs w =
     (case logger ex of
        None \<Rightarrow> (Inl error, evs, w)
      | Some l \<Rightarrow>
          (case logError l of
             None \<Rightarrow> (Inl error, evs, w)
           | Some method \<Rightarrow>
               (case method w action (toString command) error of
                  None \<Rightarrow> (Inl error, evs @ [LogError action (toString command) error], w)
                | Some thrown \<Rightarrow>
                    (Inl thrown, evs @ [LogError action (toString command) error], w))))"

text \<open>
  \<open>execute(command, action = 'Unknown Action')\<close>; the action is \<open>None\<close> when the
  caller leaves it out. The call of \<open>logAction\<close> is inside the \<open>try\<close> block, so an
  error that it throws is caught like an error of the child process.
\<close>

definition execute :: "'w executor \<Rightarrow> command \<Rightarrow> string option \<Rightarrow> (exec_result, 'w) action" where
  "execute ex command action_arg w =
     (let action = (case action_arg of None \<Rightarrow> ''Unknown Action'' | Some a \<Rightarrow> a);
          baseCommand = getBaseCommand command;
          args = getArgs command;
          announced = [ConsoleLog (''Executing: '' @ toString command)]
      in case execFileAsync ex w baseCommand args of
           (Inr result, w') \<Rightarrow>
             (case logger ex of
                None \<Rightarrow> (Inr result, announced @ [ExecFile baseCommand args], w')
              | Some l \<Rightarrow>
                  (case logAction l of
                     None \<Rightarrow> (Inr result, announced @ [ExecFile baseCommand args], w')
                   | Some method \<Rightarrow>
                       (case method w' action (toString command) ''Success'' of
                          None \<Rightarrow>
                            (Inr result,
                             announced @ [ExecFile baseCommand args,
                                          LogAction action (toString command) ''Success''],
                             w')
                        | Some thrown \<Rightarrow>
                            execute_catch ex command action thrown
                              (announced @ [ExecFile baseCommand args,
                                            LogAction action (toString command) ''Success''])
                              w')))
         | (Inl error, w') \<Rightarrow>
             execute_catch ex command action error
               (announced @ [ExecFile baseCommand args]) w')"

section \<open>The API module (lagoon-api.mjs)\<close>

text \<open>
  What the module takes from outside: the child processes, the two functions of
  \<open>JSON\<close>, and the two functions of \<open>logger.mjs\<close>, which append a line to the log
  file and throw when the file system refuses. The module's executor is the
  singleton \<open>new LagoonExecutor({ logAction, logError })\<close>.
\<close>

record 'w runtime =
  execFile :: "'w \<Rightarrow> string \<Rightarrow> jsval list \<Rightarrow> (error + exec_result) \<times> 'w"
  JSON_parse :: "string \<Rightarrow> error + jsval"
  JSON_stringify :: "jsval \<Rightarrow> string"
  logger_logAction :: "'w \<Rightarrow> string \<Rightarrow> string \<Rightarrow> string \<Rightarrow> error option"
  logger_logError :: "'w \<Rightarrow> string \<Rightarrow> string \<Rightarrow> error \<Rightarrow> error option"

definition executor :: "'w runtime \<Rightarrow> 'w executor" where
  "executor rt =
     \<lparr>logger = Some \<lparr>logAction = Some (logger_logAction rt),
                     logError = Some (logger_logError rt)\<rparr>,
      execFileAsync = execFile rt\<rparr>"

definition execCommand :: "'w runtime \<Rightarrow> command \<Rightarrow> string option \<Rightarrow> (exec_result, 'w) action" where
  "execCommand rt command action = execute (executor rt) command action"

text \<open>\<open>s.startsWith(p)\<close> and \<open>s.includes(p)\<close> on strings.\<close>

definition string_startsWith :: "string \<Rightarrow> string \<Rightarrow> bool" where
  "string_startsWith s p = (take (length p) s = p)"

fun string_includes :: "string \<Rightarrow> string \<Rightarrow> bool" where
  "string_includes [] p = (p = [])"
| "string_includes (c # cs) p = (string_startsWith (c # cs) p \<or> string_includes cs p)"

text \<open>
  \<open>s.replace(p, r)\<close> with a string pattern: the first occurrence of \<open>p\<close>, from the
  left, is replaced (\<open>r\<close> is the empty string at both calls, so the \<open>$\<close> patterns of a
  replacement do not arise).
\<close>

fun string_replace :: "string \<Rightarrow> string \<Rightarrow> string \<Rightarrow> string" where
  "string_replace [] p r = (if p = [] then r else [])"
| "string_replace (c # cs) p r =
     (if string_startsWith (c # cs) p then r @ drop (length p) (c # cs)
      else c # string_replace cs p r)"

text \<open>\<open>s.trim()\<close>, on the ASCII white space and line terminators.\<close>

definition isWhiteSpace :: "char \<Rightarrow> bool" where
  "isWhiteSpace c = (c \<in> set [CHR 0x09, CHR 0x0A, CHR 0x0B, CHR 0x0C, CHR 0x0D, CHR '' ''])"

definition trim :: "string \<Rightarrow> string" where
  "trim s = rev (dropWhile isWhiteSpace (rev (dropWhile isWhiteSpace s)))"

definition quoted :: "string \<Rightarrow> string" where
  "quoted s = [CHR 0x27] @ s @ [CHR 0x27]"

text \<open>
  \<open>v.startsWith(p)\<close> on any value: reading the property of \<open>null\<close> or \<open>undefined\<close>
  throws, and the other values that are not strings have no such method.
\<close>

fun startsWith :: "jsval \<Rightarrow> string \<Rightarrow> error + bool" where
  "startsWith (JString s) p = Inr (string_startsWith s p)"
| "startsWith JUndefined p =
     Inl (TypeError (''Cannot read properties of undefined (reading ''
                     @ quoted ''startsWith'' @ '')''))"
| "startsWith JNull p =
     Inl (TypeError (''Cannot read properties of null (reading ''
                     @ quoted ''startsWith'' @ '')''))"
| "startsWith v p = Inl (TypeError ''startsWith is not a function'')"

text \<open>
  \<open>v.k\<close>, read on a value that \<open>JSON.parse\<close> returned, for the keys \<open>result\<close> and
  \<open>message\<close>, which no string, boolean or array has.
\<close>

fun getProperty :: "jsval \<Rightarrow> string \<Rightarrow> error + jsval" where
  "getProperty JUndefined k =
     Inl (TypeError (''Cannot read properties of undefined (reading '' @ quoted k @ '')''))"
| "getProperty JNull k =
     Inl (TypeError (''Cannot read properties of null (reading '' @ quoted k @ '')''))"
| "getProperty (JObject kvs) k = Inr (case map_of kvs k of None \<Rightarrow> JUndefined | Some v \<Rightarrow> v)"
| "getProperty v k = Inr JUndefined"

subsection \<open>deleteEnvironment\<close>

text \<open>
  The test that opens \<open>deleteEnvironment\<close>: three strict comparisons, then
  \<open>environment.startsWith('project/')\<close>, which \<open>||\<close> reaches only when they are false.
\<close>

definition deletionProtected :: "jsval \<Rightarrow> error + bool" where
  "deletionProtected environment =
     (if environment = JString ''production'' \<or> environment = JString ''master''
         \<or> environment = JString ''develop''
      then Inr True
      else startsWith environment ''project/'')"

text \<open>The body of the \<open>try\<close> block.\<close>

definition deleteEnvironment_try :: "'w runtime \<Rightarrow> jsval \<Rightarrow> jsval \<Rightarrow> jsval \<Rightarrow> (bool, 'w) action" where
  "deleteEnvironment_try rt instance project environment w =
     (let command =
            withJsonOutput (withForce (LagoonCommand_deleteEnvironment
              (withProject (withInstance new_LagoonCommand instance) project) environment))
      in case execCommand rt command
                (Some (''Delete Environment '' @ ToString environment @ '' from ''
                       @ ToString project)) w of
           (Inl error, evs, w') \<Rightarrow> (Inl error, evs, w')
         | (Inr r, evs, w') \<Rightarrow>
             (case JSON_parse rt (stdout r) of
                Inl error \<Rightarrow> (Inl error, evs, w')
              | Inr response \<Rightarrow>
                  (case getProperty response ''result'' of
                     Inl error \<Rightarrow> (Inl error, evs, w')
                   | Inr result \<Rightarrow>
                       if result = JString ''success''
                       then (Inr True,
                             evs @ [ConsoleLog (''Environment '' @ ToString environment
                                                @ '' deleted successfully'')],
                             w')
                       else (Inl (Error (''Failed to delete environment ''
                                         @ ToString environment @ '': ''
                                         @ ToString response)),
                             evs, w'))))"

text \<open>
  The whole function: an error of the opening test leaves it as it is; an error of
  the \<open>try\<close> block is caught and thrown again inside a new \<open>Error\<close>.
\<close>

definition deleteEnvironment :: "'w runtime \<Rightarrow> jsval \<Rightarrow> jsval \<Rightarrow> jsval \<Rightarrow> (bool, 'w) action" where
  "deleteEnvironment rt instance project environment w =
     (case deletionProtected environment of
        Inl error \<Rightarrow> (Inl error, [], w)
      | Inr True \<Rightarrow>
          (Inl (Error (''Cannot delete protected environment: '' @ ToString environment)),
           [], w)
      | Inr False \<Rightarrow>
          (case deleteEnvironment_try rt instance project environment w of
             (Inl error, evs, w') \<Rightarrow>
               (Inl (Error (''Failed to delete environment '' @ ToString environment
                            @ '': '' @ message error)),
                evs, w')
           | (Inr deleted, evs, w') \<Rightarrow> (Inr deleted, evs, w')))"

subsection \<open>generateLoginLink\<close>

text \<open>The test that opens \<open>generateLoginLink\<close>: two strict comparisons.\<close>

definition loginLinkProtected :: "jsval \<Rightarrow> bool" where
  "loginLinkProtected environment =
     (environment = JString ''production'' \<or> environment = JString ''master'')"

definition generateLoginLink :: "'w runtime \<Rightarrow> jsval \<Rightarrow> jsval \<Rightarrow> jsval \<Rightarrow> (string, 'w) action" where
  "generateLoginLink rt instance project environment w =
     (if loginLinkProtected environment
      then (Inl (Error (''Cannot generate login link for protected environment: ''
                        @ ToString environment)),
            [], w)
      else
        let command =
              ssh (withEnvironment (withProject (withInstance new_LagoonCommand instance)
                     project) environment)
                  (JString ''drush user:unblock --uid=1 && drush uli'')
        in case execCommand rt command
                  (Some (''Generate Login Link for '' @ ToString environment @ '' in ''
                         @ ToString project)) w of
             (Inl error, evs, w') \<Rightarrow>
               (Inl (Error (''Failed to generate login link for environment ''
                            @ ToString environment @ '': '' @ message error)),
                evs, w')
           | (Inr r, evs, w') \<Rightarrow> (Inr (trim (stdout r)), evs, w'))"

subsection \<open>gitUrlToGithubUrl\<close>

text \<open>
  The function returns a string or \<open>null\<close> (here \<open>None\<close>). A truthy value that is
  not a string has no \<open>startsWith\<close>.
\<close>

definition gitUrlToGithubUrl :: "jsval \<Rightarrow> error + string option" where
  "gitUrlToGithubUrl gitUrl =
     (if \<not> truthy gitUrl then Inr None
      else case gitUrl of
        JString s \<Rightarrow>
          if string_startsWith s ''git@github.com:''
          then let path = string_replace (string_replace s ''git@github.com:'' []) ''.git'' []
               in Inr (Some (''https://github.com/'' @ path))
          else if string_includes s ''github.com''
          then Inr (Some (string_replace s ''.git'' []))
          else Inr None
      | _ \<Rightarrow> Inl (TypeError ''gitUrl.startsWith is not a function''))"

subsection \<open>deployBranch\<close>

text \<open>
  \<open>/^[a-zA-Z0-9_./-]+$/.test(branch)\<close>: the argument is converted to a string, which
  must be one or more characters of the class, from its start to its end. A range
  of the class is a range of character codes.
\<close>

definition inRange :: "char \<Rightarrow> char \<Rightarrow> char \<Rightarrow> bool" where
  "inRange lo hi c = ((of_char lo :: nat) \<le> of_char c \<and> (of_char c :: nat) \<le> of_char hi)"

definition branchNameClass :: "char \<Rightarrow> bool" where
  "branchNameClass c =
     (inRange CHR ''a'' CHR ''z'' c \<or> inRange CHR ''A'' CHR ''Z'' c
      \<or> inRange CHR ''0'' CHR ''9'' c
      \<or> c = CHR ''_'' \<or> c = CHR ''.'' \<or> c = CHR ''/'' \<or> c = CHR ''-'')"

definition branchNamePattern_test :: "jsval \<Rightarrow> bool" where
  "branchNamePattern_test branch =
     (let s = ToString branch in s \<noteq> [] \<and> list_all branchNameClass s)"

definition invalidBranchName :: error where
  "invalidBranchName = Error (''Invalid branch name. Branch names must contain only ''
     @ ''alphanumeric characters, slashes, underscores, hyphens, and periods.'')"

record deploy_result =
  success :: bool
  deploy_message :: string

text \<open>The body of the \<open>try\<close> block, which here is the whole body of the function.\<close>

definition deployBranch_try :: "'w runtime \<Rightarrow> jsval \<Rightarrow> jsval \<Rightarrow> jsval \<Rightarrow> (deploy_result, 'w) action" where
  "deployBranch_try rt instance project branch w =
     (if \<not> branchNamePattern_test branch then (Inl invalidBranchName, [], w)
      else
        let command =
              withJsonOutput (LagoonCommand_deployBranch
                (withProject (withInstance new_LagoonCommand instance) project) branch)
        in case execCommand rt command
                  (Some (''Deploy Branch '' @ ToString branch @ '' to '' @ ToString project))
                  w of
             (Inl error, evs, w') \<Rightarrow> (Inl error, evs, w')
           | (Inr r, evs, w') \<Rightarrow>
               (case JSON_parse rt (stdout r) of
                  Inl error \<Rightarrow> (Inl error, evs, w')
                | Inr response \<Rightarrow>
                    (case getProperty response ''result'' of
                       Inl error \<Rightarrow> (Inl error, evs, w')
                     | Inr result \<Rightarrow>
                         if result = JString ''success''
                         then (Inr \<lparr>success = True,
                                    deploy_message = ''Branch '' @ ToString branch
                                      @ '' is being deployed to '' @ ToString project\<rparr>,
                               evs, w')
                         else if result = JString ''error''
                         then (case getProperty response ''message'' of
                                 Inl error \<Rightarrow> (Inl error, evs, w')
                               | Inr m \<Rightarrow>
                                   (Inl (Error (''Failed to deploy branch '' @ ToString branch
                                           @ '': ''
                                           @ (if truthy m then ToString m
                                              else JSON_stringify rt response))),
                                    evs, w'))
                         else (Inl (Error (''Unexpected response when deploying branch ''
                                           @ ToString branch @ '': ''
                                           @ JSON_stringify rt response)),
                               evs, w'))))"

definition deployBranch :: "'w runtime \<Rightarrow> jsval \<Rightarrow> jsval \<Rightarrow> jsval \<Rightarrow> (deploy_result, 'w) action" where
  "deployBranch rt instance project branch w =
     (case deployBranch_try rt instance project branch w of
        (Inl error, evs, w') \<Rightarrow>
          (Inl (Error (''Failed to deploy branch '' @ ToString branch @ '': ''
                       @ message error)),
           evs, w')
      | (Inr r, evs, w') \<Rightarrow> (Inr r, evs, w'))"

section \<open>The deletion loop of the interactive flow (interactive.mjs)\<close>

text \<open>
  The last statement of \<open>deleteEnvironmentFlow\<close> before the closing prompt:
  \<open>if (userConfirm) { for (const env of selectedEnvironments) { ... } } else { ... }\<close>,
  with the answers of the two prompts, the selection and the confirmation, as
  parameters. One turn of the loop starts the spinner, awaits \<open>deleteEnvironment\<close>
  inside \<open>try\<close>, and ends the spinner with \<open>succeed\<close> or, in \<open>catch\<close>, with \<open>fail\<close>.
\<close>

definition deletingMessage :: "jsval \<Rightarrow> event" where
  "deletingMessage env = SpinnerStart (''Deleting environment '' @ ToString env @ ''...'')"

definition deletionReport :: "jsval \<Rightarrow> error + bool \<Rightarrow> event" where
  "deletionReport env r =
     (case r of
        Inr deleted \<Rightarrow> SpinnerSucceed (''Environment '' @ ToString env @ '' deleted successfully.'')
      | Inl error \<Rightarrow>
          SpinnerFail (''Failed to delete environment '' @ ToString env @ '': ''
                       @ message error))"

fun deleteEnvironmentFlow_loop :: "'w runtime \<Rightarrow> jsval \<Rightarrow> jsval \<Rightarrow> jsval list \<Rightarrow> 'w \<Rightarrow> event list \<times> 'w" where
  "deleteEnvironmentFlow_loop rt instance project [] w = ([], w)"
| "deleteEnvironmentFlow_loop rt instance project (env # envs) w =
     (case deleteEnvironment rt instance project env w of
        (r, evs, w1) \<Rightarrow>
          (case deleteEnvironmentFlow_loop rt instance project envs w1 of
             (rest, w2) \<Rightarrow>
               (deletingMessage env # evs @ [deletionReport env r] @ rest, w2)))"

definition deleteEnvironmentFlow_confirmed :: "'w runtime \<Rightarrow> jsval \<Rightarrow> jsval \<Rightarrow> jsval list \<Rightarrow> bool \<Rightarrow> 'w \<Rightarrow> event list \<times> 'w" where
  "deleteEnvironmentFlow_confirmed rt instance project selectedEnvironments userConfirm w =
     (if userConfirm
      then deleteEnvironmentFlow_loop rt instance project selectedEnvironments w
      else ([ConsoleLog (CHR 0x0A # ''Deletion cancelled.'')], w))"

section \<open>Reading a run\<close>

text \<open>The three parts of what an awaited function returns.\<close>

definition result_of :: "(error + 'a) \<times> event list \<times> 'w \<Rightarrow> error + 'a" where
  "result_of r = fst r"

definition events_of :: "(error + 'a) \<times> event list \<times> 'w \<Rightarrow> event list" where
  "events_of r = fst (snd r)"

definition world_of :: "(error + 'a) \<times> event list \<times> 'w \<Rightarrow> 'w" where
  "world_of r = snd (snd r)"

fun isSpinner :: "event \<Rightarrow> bool" where
  "isSpinner (SpinnerStart m) = True"
| "isSpinner (SpinnerSucceed m) = True"
| "isSpinner (SpinnerFail m) = True"
| "isSpinner e = False"

text \<open>
  The result of each deletion of a selection when the deletions are run one after the
  other, each in the world the one before it left.
\<close>

fun deletionResults :: "'w runtime \<Rightarrow> jsval \<Rightarrow> jsval \<Rightarrow> jsval list \<Rightarrow> 'w \<Rightarrow> (error + bool) list" where
  "deletionResults rt instance project [] w = []"
| "deletionResults rt instance project (env # envs) w =
     result_of (deleteEnvironment rt instance project env w)
     # deletionResults rt instance project envs
         (world_of (deleteEnvironment rt instance project env w))"

text \<open>The argument array of the command that deletes one environment.\<close>

definition deleteArguments :: "jsval \<Rightarrow> jsval \<Rightarrow> jsval \<Rightarrow> jsval list" where
  "deleteArguments instance project environment =
     getArgs (withJsonOutput (withForce (LagoonCommand_deleteEnvironment
       (withProject (withInstance new_LagoonCommand instance) project) environment)))"

text \<open>The argument array of the command that asks for a login link.\<close>

definition loginArguments :: "jsval \<Rightarrow> jsval \<Rightarrow> jsval \<Rightarrow> jsval list" where
  "loginArguments instance project environment =
     getArgs (ssh (withEnvironment (withProject (withInstance new_LagoonCommand instance)
                project) environment)
              (JString ''drush user:unblock --uid=1 && drush uli''))"

text \<open>The argument array of the command that deploys a branch.\<close>

definition deployArguments :: "jsval \<Rightarrow> jsval \<Rightarrow> jsval \<Rightarrow> jsval list" where
  "deployArguments instance project branch =
     getArgs (withJsonOutput (LagoonCommand_deployBranch
       (withProject (withInstance new_LagoonCommand instance) project) branch))"

section \<open>An example world\<close>

text \<open>
  A world for running the definitions on concrete inputs. Its state counts the child
  processes started so far. A process whose arguments name the environment \<open>pr-1\<close>
  fails; every other one prints \<open>ok\<close>, which the example's \<open>JSON.parse\<close> reads as
  an object whose \<open>result\<close> is \<open>success\<close>. The two functions of the log file return.
\<close>

definition exampleExecFile :: "nat \<Rightarrow> string \<Rightarrow> jsval list \<Rightarrow> (error + exec_result) \<times> nat" where
  "exampleExecFile n program arguments =
     (if JString ''pr-1'' \<in> set arguments
      then (Inl (Error ''Command failed''), Suc n)
      else (Inr \<lparr>stdout = ''ok'', stderr = []\<rparr>, Suc n))"

definition exampleRuntime :: "nat runtime" where
  "exampleRuntime =
     \<lparr>execFile = exampleExecFile,
      JSON_parse = (\<lambda>s. if s = ''ok'' then Inr (JObject [(''result'', JString ''success'')])
                         else Inl (SyntaxError ''Unexpected token'')),
      JSON_stringify = (\<lambda>v. ''{}''),
      logger_logAction = (\<lambda>n a c r. None),
      logger_logError = (\<lambda>n a c e. None)\<rparr>"

text \<open>
  Five executors on the example's child processes: without a logger; with a logger
  whose two methods return; with a logger that has only \<open>logAction\<close>; with one that
  has only \<open>logError\<close>; and with a logger whose two methods throw, as the logger of
  the repository does when the disk is full.
\<close>

definition silentExecutor :: "nat executor" where
  "silentExecutor = \<lparr>logger = None, execFileAsync = exampleExecFile\<rparr>"

definition loggingExecutor :: "nat executor" where
  "loggingExecutor = executor exampleRuntime"

definition actionOnlyExecutor :: "nat executor" where
  "actionOnlyExecutor =
     \<lparr>logger = Some \<lparr>logAction = Some (\<lambda>n a c r. None), logError = None\<rparr>,
      execFileAsync = exampleExecFile\<rparr>"

definition errorOnlyExecutor :: "nat executor" where
  "errorOnlyExecutor =
     \<lparr>logger = Some \<lparr>logAction = None, logError = Some (\<lambda>n a c e. None)\<rparr>,
      execFileAsync = exampleExecFile\<rparr>"

definition diskFullExecutor :: "nat executor" where
  "diskFullExecutor =
     \<lparr>logger = Some \<lparr>logAction = Some (\<lambda>n a c r. Some (Error ''ENOSPC: no space left on device, write'')),
                     logError = Some (\<lambda>n a c e. Some (Error ''ENOSPC: no space left on device, write''))\<rparr>,
      execFileAsync = exampleExecFile\<rparr>"

section \<open>Properties of the command model\<close>

text \<open>
  Claim C5. The chain
  \<open>withInstance('a').withProject('b').listEnvironments().withJsonOutput()\<close> on a new
  LagoonCommand, read back through \<open>getArgs\<close>, is exactly
  \<open>['-l','a','-p','b','list','environments','--output-json']\<close>, in this order.
\<close>

theorem C5_chain_arguments:
  "getArgs (withJsonOutput (listEnvironments
      (withProject (withInstance new_LagoonCommand (JString ''a'')) (JString ''b''))))
   = [JString ''-l'', JString ''a'', JString ''-p'', JString ''b'',
      JString ''list'', JString ''environments'', JString ''--output-json'']"
  by (simp add: getArgs_def withJsonOutput_def listEnvironments_def withProject_def
      withInstance_def new_LagoonCommand_def push_def)

text \<open>
  Claim C6. Every configurator of the two builders that takes a value (withInstance,
  withProject, withEnvironment, deleteEnvironment, deployBranch, ssh, lsRemote) returns
  the command unchanged, so with the same argument list, when the value is falsy; it
  has no branch that raises.
\<close>

theorem C6_falsy_configurator_identity:
  assumes "\<not> truthy v"
  shows "withInstance c v = c \<and> withProject c v = c \<and> withEnvironment c v = c
       \<and> LagoonCommand_deleteEnvironment c v = c \<and> LagoonCommand_deployBranch c v = c
       \<and> ssh c v = c \<and> lsRemote c v = c"
  using assms
  by (simp add: withInstance_def withProject_def withEnvironment_def
      LagoonCommand_deleteEnvironment_def LagoonCommand_deployBranch_def ssh_def lsRemote_def)

theorem C6_falsy_configurator_identity_witness:
  "\<not> truthy JNull \<and> \<not> truthy JUndefined \<and> \<not> truthy (JString '''')
   \<and> getArgs (withInstance (withJsonOutput new_LagoonCommand) JNull)
       = [JString ''--output-json'']
   \<and> getArgs (LagoonCommand_deleteEnvironment (withJsonOutput new_LagoonCommand) JUndefined)
       = [JString ''--output-json'']
   \<and> getArgs (lsRemote new_GitCommand (JString '''')) = []"
  using C6_falsy_configurator_identity [of JNull "withJsonOutput new_LagoonCommand"]
    C6_falsy_configurator_identity [of JUndefined "withJsonOutput new_LagoonCommand"]
    C6_falsy_configurator_identity [of "JString ''''" new_GitCommand]
  by (simp add: getArgs_def withJsonOutput_def new_LagoonCommand_def new_GitCommand_def push_def)

section \<open>Properties of the executor\<close>

text \<open>
  The display string is longer than any string among the arguments, and longer than
  the name of the program, so it is none of them.
\<close>

lemma joinWith_length: "s \<in> set xs \<Longrightarrow> length s \<le> length (joinWith sep xs)"
  by (induction sep xs rule: joinWith.induct) auto

lemma joinElements_member: "JString s \<in> set vs \<Longrightarrow> s \<in> set (joinElements vs)"
  by (induction vs) auto

lemma toString_longer_than_argument:
  "JString s \<in> set (args c) \<Longrightarrow> length s < length (toString c)"
  using joinWith_length [OF joinElements_member, of s "args c" "'' ''"]
  by (simp add: toString_def)

lemma toString_not_an_argument: "JString (toString c) \<notin> set (getArgs c)"
  using toString_longer_than_argument [of "toString c" c] by (auto simp: getArgs_def)

lemma toString_not_baseCommand: "toString c \<noteq> getBaseCommand c"
  by (simp add: toString_def getBaseCommand_def)

text \<open>
  The \<open>catch\<close> block starts no process and leaves the world as it is; it always
  throws, the error it was entered with or the logger's.
\<close>

lemma execute_catch_world: "snd (snd (execute_catch ex c action e evs w)) = w"
  by (simp add: execute_catch_def split: option.splits)

lemma execute_catch_spawns:
  "filter isExecFile (fst (snd (execute_catch ex c action e evs w))) = filter isExecFile evs"
  by (simp add: execute_catch_def split: option.splits)

lemma execute_catch_throws: "isl (result_of (execute_catch ex c action e evs w))"
  by (simp add: execute_catch_def result_of_def split: option.splits)

lemma execute_world:
  "world_of (execute ex c a w) = snd (execFileAsync ex w (getBaseCommand c) (getArgs c))"
proof (cases "execFileAsync ex w (getBaseCommand c) (getArgs c)")
  case (Pair out w')
  then show ?thesis
    by (cases out)
       (simp_all add: execute_def Let_def execute_catch_world world_of_def
          split: option.splits)
qed

lemma execute_spawns:
  "filter isExecFile (events_of (execute ex c a w)) = [ExecFile (getBaseCommand c) (getArgs c)]"
proof (cases "execFileAsync ex w (getBaseCommand c) (getArgs c)")
  case (Pair out w')
  then show ?thesis
    by (cases out)
       (simp_all add: execute_def Let_def execute_catch_spawns events_of_def
          split: option.splits)
qed

text \<open>
  Claim C1. For every command, executor (whatever its logger does), action and world,
  \<open>execute\<close> starts exactly one child process, with the command's base command as the
  program and the command's argument list as the argument array, and the world it
  leaves is the one that this call left. The display string \<open>toString\<close> goes to the
  console and the logger only: it is neither the program nor one of the arguments.
\<close>

theorem C1_execute_spawns_argument_vector:
  "filter isExecFile (events_of (execute ex c a w)) = [ExecFile (getBaseCommand c) (getArgs c)]
   \<and> world_of (execute ex c a w) = snd (execFileAsync ex w (getBaseCommand c) (getArgs c))
   \<and> toString c \<noteq> getBaseCommand c
   \<and> JString (toString c) \<notin> set (getArgs c)"
  by (simp add: execute_spawns execute_world toString_not_baseCommand
      toString_not_an_argument)

theorem C1_execute_spawns_argument_vector_witness:
  "filter isExecFile (events_of (execute silentExecutor
       (withJsonOutput (listProjects (withInstance new_LagoonCommand (JString ''a; rm -rf /''))))
       None 0))
   = [ExecFile ''lagoon'' [JString ''-l'', JString ''a; rm -rf /'', JString ''list'',
        JString ''projects'', JString ''--output-json'']]
   \<and> toString (withJsonOutput (listProjects (withInstance new_LagoonCommand (JString ''a; rm -rf /''))))
     = ''lagoon -l a; rm -rf / list projects --output-json''
   \<and> filter isExecFile (events_of (execute diskFullExecutor
       (lsRemote new_GitCommand (JString ''git@github.com:org/repo.git'')) None 0))
   = [ExecFile ''git'' [JString ''ls-remote'', JString ''--heads'',
        JString ''git@github.com:org/repo.git'']]
   \<and> world_of (execute diskFullExecutor
       (lsRemote new_GitCommand (JString ''git@github.com:org/repo.git'')) None 0) = 1"
  using C1_execute_spawns_argument_vector [of silentExecutor
      "withJsonOutput (listProjects (withInstance new_LagoonCommand (JString ''a; rm -rf /'')))"
      None 0]
    C1_execute_spawns_argument_vector [of diskFullExecutor
      "lsRemote new_GitCommand (JString ''git@github.com:org/repo.git'')" None 0]
  by (simp add: getBaseCommand_def getArgs_def withJsonOutput_def listProjects_def
      withInstance_def new_LagoonCommand_def push_def toString_def lsRemote_def
      new_GitCommand_def diskFullExecutor_def exampleExecFile_def)

text \<open>What \<open>execute\<close> does when the child process fails, and when it succeeds.\<close>

lemma execute_failure:
  assumes "execFileAsync ex w (getBaseCommand c) (getArgs c) = (Inl e, w')"
  shows "execute ex c (Some action) w
         = execute_catch ex c action e
             [ConsoleLog (''Executing: '' @ toString c),
              ExecFile (getBaseCommand c) (getArgs c)] w'"
  using assms by (simp add: execute_def Let_def)

lemma execute_success_unlogged:
  assumes "execFileAsync ex w (getBaseCommand c) (getArgs c) = (Inr r, w')"
    and "logger ex = None \<or> (logger ex = Some l \<and> logAction l = None)"
  shows "execute ex c (Some action) w
         = (Inr r, [ConsoleLog (''Executing: '' @ toString c),
                    ExecFile (getBaseCommand c) (getArgs c)], w')"
  using assms by (auto simp: execute_def Let_def)

lemma execute_catch_unlogged:
  assumes "logger ex = None \<or> (logger ex = Some l \<and> logError l = None)"
  shows "execute_catch ex c action e evs w = (Inl e, evs, w)"
  using assms by (auto simp: execute_catch_def)

lemma execute_catch_logged:
  assumes "logger ex = Some l" and "logError l = Some m"
  shows "events_of (execute_catch ex c action e evs w)
           = evs @ [LogError action (toString c) e]"
    and "m w action (toString c) e = None
           \<Longrightarrow> result_of (execute_catch ex c action e evs w) = Inl e"
  using assms
  by (simp_all add: execute_catch_def events_of_def result_of_def split: option.splits)

text \<open>
  Claim C4, amended. Let the child process fail with an error. Then \<open>execute\<close> throws:
  the failure is never swallowed. A logger that has \<open>logError\<close> is called, after the
  process, with the action, the display string and the error, and when this call
  returns, the error thrown is the error of the process. When the logger is absent,
  or lacks the method of the branch taken (\<open>logError\<close> when the process fails,
  \<open>logAction\<close> when it succeeds), the result and the world are those of the process
  and nothing is logged.
\<close>

theorem C4_failure_logged_and_rethrown:
  "(fst (execFileAsync ex w (getBaseCommand c) (getArgs c)) = Inl e
      \<longrightarrow> isl (result_of (execute ex c (Some action) w)))
   \<and> (fst (execFileAsync ex w (getBaseCommand c) (getArgs c)) = Inl e
        \<and> logger ex = Some l \<and> logError l = Some m
      \<longrightarrow> events_of (execute ex c (Some action) w)
            = [ConsoleLog (''Executing: '' @ toString c),
               ExecFile (getBaseCommand c) (getArgs c),
               LogError action (toString c) e]
          \<and> (m (snd (execFileAsync ex w (getBaseCommand c) (getArgs c)))
                 action (toString c) e = None
               \<longrightarrow> result_of (execute ex c (Some action) w) = Inl e))
   \<and> (fst (execFileAsync ex w (getBaseCommand c) (getArgs c)) = Inl e
        \<and> (logger ex = None \<or> (logger ex = Some l \<and> logError l = None))
      \<longrightarrow> result_of (execute ex c (Some action) w) = Inl e
          \<and> world_of (execute ex c (Some action) w)
              = snd (execFileAsync ex w (getBaseCommand c) (getArgs c))
          \<and> events_of (execute ex c (Some action) w)
              = [ConsoleLog (''Executing: '' @ toString c),
                 ExecFile (getBaseCommand c) (getArgs c)])
   \<and> (fst (execFileAsync ex w (getBaseCommand c) (getArgs c)) = Inr r
        \<and> (logger ex = None \<or> (logger ex = Some l \<and> logAction l = None))
      \<longrightarrow> result_of (execute ex c (Some action) w) = Inr r
          \<and> world_of (execute ex c (Some action) w)
              = snd (execFileAsync ex w (getBaseCommand c) (getArgs c))
          \<and> events_of (execute ex c (Some action) w)
              = [ConsoleLog (''Executing: '' @ toString c),
                 ExecFile (getBaseCommand c) (getArgs c)])"
proof -
  obtain out w' where out: "execFileAsync ex w (getBaseCommand c) (getArgs c) = (out, w')"
    by (cases "execFileAsync ex w (getBaseCommand c) (getArgs c)") auto
  have thrown: "isl (result_of (execute ex c (Some action) w))" if "out = Inl e"
    using that out execute_failure [of ex w c e w' action] by (simp add: execute_catch_throws)
  have logged: "events_of (execute ex c (Some action) w)
            = [ConsoleLog (''Executing: '' @ toString c),
               ExecFile (getBaseCommand c) (getArgs c),
               LogError action (toString c) e]"
    if "out = Inl e" "logger ex = Some l" "logError l = Some m"
    using that out execute_failure [of ex w c e w' action]
    by (simp add: execute_catch_logged(1) [of ex l m])
  have rethrown: "result_of (execute ex c (Some action) w) = Inl e"
    if "out = Inl e" "logger ex = Some l" "logError l = Some m"
      "m w' action (toString c) e = None"
    using that out execute_failure [of ex w c e w' action]
    by (simp add: execute_catch_logged(2) [of ex l m])
  have skipped: "execute ex c (Some action) w
        = (Inl e, [ConsoleLog (''Executing: '' @ toString c),
                   ExecFile (getBaseCommand c) (getArgs c)], w')"
    if "out = Inl e" "logger ex = None \<or> (logger ex = Some l \<and> logError l = None)"
    using that(1) out execute_failure [of ex w c e w' action]
    by (simp add: execute_catch_unlogged [OF that(2)])
  have succeeded: "execute ex c (Some action) w
        = (Inr r, [ConsoleLog (''Executing: '' @ toString c),
                   ExecFile (getBaseCommand c) (getArgs c)], w')"
    if "out = Inr r" "logger ex = None \<or> (logger ex = Some l \<and> logAction l = None)"
    using that(1) out execute_success_unlogged [OF _ that(2), of w c r w' action]
    by simp
  show ?thesis
    using out thrown logged rethrown skipped succeeded
    by (simp add: result_of_def events_of_def world_of_def)
qed

theorem C4_failure_logged_and_rethrown_witness:
  "result_of (execute loggingExecutor
       (LagoonCommand_deleteEnvironment new_LagoonCommand (JString ''pr-1'')) (Some ''Delete'') 0)
     = Inl (Error ''Command failed'')
   \<and> events_of (execute loggingExecutor
       (LagoonCommand_deleteEnvironment new_LagoonCommand (JString ''pr-1'')) (Some ''Delete'') 0)
     = [ConsoleLog ''Executing: lagoon delete environment --environment pr-1'',
        ExecFile ''lagoon'' [JString ''delete'', JString ''environment'',
          JString ''--environment'', JString ''pr-1''],
        LogError ''Delete'' ''lagoon delete environment --environment pr-1''
          (Error ''Command failed'')]
   \<and> result_of (execute silentExecutor
       (LagoonCommand_deleteEnvironment new_LagoonCommand (JString ''pr-1'')) (Some ''Delete'') 0)
     = Inl (Error ''Command failed'')
   \<and> events_of (execute actionOnlyExecutor
       (LagoonCommand_deleteEnvironment new_LagoonCommand (JString ''pr-1'')) (Some ''Delete'') 0)
     = [ConsoleLog ''Executing: lagoon delete environment --environment pr-1'',
        ExecFile ''lagoon'' [JString ''delete'', JString ''environment'',
          JString ''--environment'', JString ''pr-1'']]
   \<and> result_of (execute actionOnlyExecutor
       (LagoonCommand_deleteEnvironment new_LagoonCommand (JString ''pr-1'')) (Some ''Delete'') 0)
     = Inl (Error ''Command failed'')
   \<and> result_of (execute errorOnlyExecutor
       (LagoonCommand_deleteEnvironment new_LagoonCommand (JString ''pr-2'')) (Some ''Delete'') 0)
     = Inr \<lparr>stdout = ''ok'', stderr = []\<rparr>
   \<and> events_of (execute errorOnlyExecutor
       (LagoonCommand_deleteEnvironment new_LagoonCommand (JString ''pr-2'')) (Some ''Delete'') 0)
     = [ConsoleLog ''Executing: lagoon delete environment --environment pr-2'',
        ExecFile ''lagoon'' [JString ''delete'', JString ''environment'',
          JString ''--environment'', JString ''pr-2'']]
   \<and> isl (result_of (execute diskFullExecutor
       (LagoonCommand_deleteEnvironment new_LagoonCommand (JString ''pr-1'')) (Some ''Delete'') 0))"
  using C4_failure_logged_and_rethrown [where ex = loggingExecutor and w = 0
      and c = "LagoonCommand_deleteEnvironment new_LagoonCommand (JString ''pr-1'')"
      and e = "Error ''Command failed''" and action = "''Delete''"
      and l = "\<lparr>logAction = Some (logger_logAction exampleRuntime),
                 logError = Some (logger_logError exampleRuntime)\<rparr>"
      and m = "logger_logError exampleRuntime"]
    C4_failure_logged_and_rethrown [where ex = silentExecutor and w = 0
      and c = "LagoonCommand_deleteEnvironment new_LagoonCommand (JString ''pr-1'')"
      and e = "Error ''Command failed''" and action = "''Delete''"]
    C4_failure_logged_and_rethrown [where ex = actionOnlyExecutor and w = 0
      and c = "LagoonCommand_deleteEnvironment new_LagoonCommand (JString ''pr-1'')"
      and e = "Error ''Command failed''" and action = "''Delete''"
      and l = "\<lparr>logAction = Some (\<lambda>n a c r. None), logError = None\<rparr>"]
    C4_failure_logged_and_rethrown [where ex = errorOnlyExecutor and w = 0
      and c = "LagoonCommand_deleteEnvironment new_LagoonCommand (JString ''pr-2'')"
      and r = "\<lparr>stdout = ''ok'', stderr = []\<rparr>" and action = "''Delete''"
      and l = "\<lparr>logAction = None, logError = Some (\<lambda>n a c e. None)\<rparr>"]
    C4_failure_logged_and_rethrown [where ex = diskFullExecutor and w = 0
      and c = "LagoonCommand_deleteEnvironment new_LagoonCommand (JString ''pr-1'')"
      and e = "Error ''Command failed''" and action = "''Delete''"]
  by (simp add: loggingExecutor_def silentExecutor_def actionOnlyExecutor_def
      errorOnlyExecutor_def diskFullExecutor_def executor_def exampleRuntime_def
      exampleExecFile_def getBaseCommand_def getArgs_def toString_def
      LagoonCommand_deleteEnvironment_def new_LagoonCommand_def push_def)

text \<open>
  Claim C4 as stated fails where \<open>logError\<close> itself throws: the call stands before
  \<open>throw error\<close>, so the error that leaves \<open>execute\<close> is the logger's and not the
  one of the child process. And a \<open>logAction\<close> that throws, being inside the \<open>try\<close>
  block, makes a process that succeeded end in that error.
\<close>

theorem C4_throwing_logger_replaces_error:
  "fst (exampleExecFile 0 ''lagoon'' [JString ''delete'', JString ''environment'',
          JString ''--environment'', JString ''pr-1''])
     = Inl (Error ''Command failed'')
   \<and> execute diskFullExecutor
       (LagoonCommand_deleteEnvironment new_LagoonCommand (JString ''pr-1'')) (Some ''Delete'') 0
     = (Inl (Error ''ENOSPC: no space left on device, write''),
        [ConsoleLog ''Executing: lagoon delete environment --environment pr-1'',
         ExecFile ''lagoon'' [JString ''delete'', JString ''environment'',
           JString ''--environment'', JString ''pr-1''],
         LogError ''Delete'' ''lagoon delete environment --environment pr-1''
           (Error ''Command failed'')],
        1)
   \<and> fst (exampleExecFile 0 ''lagoon'' [JString ''delete'', JString ''environment'',
          JString ''--environment'', JString ''pr-2''])
     = Inr \<lparr>stdout = ''ok'', stderr = []\<rparr>
   \<and> result_of (execute diskFullExecutor
       (LagoonCommand_deleteEnvironment new_LagoonCommand (JString ''pr-2'')) (Some ''Delete'') 0)
     = Inl (Error ''ENOSPC: no space left on device, write'')"
  by (simp add: execute_def execute_catch_def result_of_def diskFullExecutor_def
      exampleExecFile_def getBaseCommand_def getArgs_def toString_def
      LagoonCommand_deleteEnvironment_def new_LagoonCommand_def push_def Let_def)

section \<open>Properties of the API module\<close>

subsection \<open>Shared facts\<close>

lemma string_startsWith_iff: "string_startsWith s p \<longleftrightarrow> (\<exists>rest. s = p @ rest)"
proof
  assume "string_startsWith s p"
  then have "s = p @ drop (length p) s"
    by (metis append_take_drop_id string_startsWith_def)
  then show "\<exists>rest. s = p @ rest" ..
next
  assume "\<exists>rest. s = p @ rest"
  then show "string_startsWith s p" by (auto simp: string_startsWith_def)
qed

lemma deletionProtected_string:
  "deletionProtected (JString s)
   = Inr (s = ''production'' \<or> s = ''master'' \<or> s = ''develop''
          \<or> (\<exists>rest. s = ''project/'' @ rest))"
  by (simp add: deletionProtected_def string_startsWith_iff)

lemma execCommand_spawns:
  "filter isExecFile (events_of (execCommand rt c a w)) = [ExecFile (getBaseCommand c) (getArgs c)]"
  by (simp add: execCommand_def execute_spawns)

lemma events_of_triple: "events_of (r, evs, w) = evs"
  by (simp add: events_of_def)

lemma result_of_triple: "result_of (r, evs, w) = r"
  by (simp add: result_of_def)

lemma world_of_triple: "world_of (r, evs, w) = w"
  by (simp add: world_of_def)

lemma getBaseCommand_push: "getBaseCommand (push c xs) = getBaseCommand c"
  by (simp add: getBaseCommand_def push_def)

lemma lagoon_baseCommand:
  "getBaseCommand new_LagoonCommand = ''lagoon''"
  "getBaseCommand (withInstance c v) = getBaseCommand c"
  "getBaseCommand (withProject c v) = getBaseCommand c"
  "getBaseCommand (withEnvironment c v) = getBaseCommand c"
  "getBaseCommand (withJsonOutput c) = getBaseCommand c"
  "getBaseCommand (withForce c) = getBaseCommand c"
  "getBaseCommand (LagoonCommand_deleteEnvironment c v) = getBaseCommand c"
  "getBaseCommand (LagoonCommand_deployBranch c v) = getBaseCommand c"
  "getBaseCommand (ssh c v) = getBaseCommand c"
  by (simp_all add: new_LagoonCommand_def withInstance_def withProject_def withEnvironment_def
      withJsonOutput_def withForce_def LagoonCommand_deleteEnvironment_def
      LagoonCommand_deployBranch_def ssh_def getBaseCommand_push)
     (simp add: getBaseCommand_def)

lemma deleteEnvironment_try_spawns:
  "filter isExecFile (events_of (deleteEnvironment_try rt i p e w))
   = [ExecFile ''lagoon'' (deleteArguments i p e)]"
proof -
  let ?c = "withJsonOutput (withForce (LagoonCommand_deleteEnvironment
              (withProject (withInstance new_LagoonCommand i) p) e))"
  let ?a = "Some (''Delete Environment '' @ ToString e @ '' from '' @ ToString p)"
  obtain r evs w' where run: "execCommand rt ?c ?a w = (r, evs, w')"
    by (cases "execCommand rt ?c ?a w") auto
  have "filter isExecFile evs = [ExecFile (getBaseCommand ?c) (getArgs ?c)]"
    using execCommand_spawns [of rt ?c ?a w] run by (simp add: events_of_triple)
  then have evs: "filter isExecFile evs = [ExecFile ''lagoon'' (deleteArguments i p e)]"
    by (simp add: lagoon_baseCommand deleteArguments_def)
  show ?thesis
    using run evs
    by (simp add: deleteEnvironment_try_def Let_def events_of_triple
        split: sum.splits)
qed

subsection \<open>deleteEnvironment\<close>

lemma deleteEnvironment_protected:
  assumes "deletionProtected e = Inr True"
  shows "deleteEnvironment rt i p e w
         = (Inl (Error (''Cannot delete protected environment: '' @ ToString e)), [], w)"
  using assms by (simp add: deleteEnvironment_def)

lemma deleteEnvironment_unprotected:
  assumes "deletionProtected e = Inr False"
  shows "filter isExecFile (events_of (deleteEnvironment rt i p e w))
           = [ExecFile ''lagoon'' (deleteArguments i p e)]"
    and "result_of (deleteEnvironment rt i p e w)
           \<noteq> Inl (Error (''Cannot delete protected environment: '' @ ToString e))"
proof -
  obtain r evs w' where run: "deleteEnvironment_try rt i p e w = (r, evs, w')"
    by (cases "deleteEnvironment_try rt i p e w") auto
  have "filter isExecFile evs = [ExecFile ''lagoon'' (deleteArguments i p e)]"
    using deleteEnvironment_try_spawns [of rt i p e w] run by (simp add: events_of_triple)
  then show "filter isExecFile (events_of (deleteEnvironment rt i p e w))
           = [ExecFile ''lagoon'' (deleteArguments i p e)]"
    using assms run by (cases r) (simp_all add: deleteEnvironment_def events_of_triple)
  show "result_of (deleteEnvironment rt i p e w)
           \<noteq> Inl (Error (''Cannot delete protected environment: '' @ ToString e))"
    using assms run by (cases r) (simp_all add: deleteEnvironment_def result_of_triple)
qed

text \<open>
  Claim C2, amended. For every environment name that is a string, the empty one
  included, the protection test of \<open>deleteEnvironment\<close> does not throw: it is true
  exactly when the name is \<open>production\<close>, \<open>master\<close> or \<open>develop\<close> or starts with
  \<open>project/\<close>. \<open>deleteEnvironment\<close> throws the error
  \<open>Cannot delete protected environment\<close> exactly for these names, and then nothing has
  happened: no event, and the world is unchanged. For every other string the deletion
  command is started.
\<close>

theorem C2_protected_environment_not_deleted:
  "deletionProtected (JString s)
     = Inr (s = ''production'' \<or> s = ''master'' \<or> s = ''develop''
            \<or> (\<exists>rest. s = ''project/'' @ rest))
   \<and> (result_of (deleteEnvironment rt i p (JString s) w)
         = Inl (Error (''Cannot delete protected environment: '' @ s)))
       = (s = ''production'' \<or> s = ''master'' \<or> s = ''develop''
          \<or> (\<exists>rest. s = ''project/'' @ rest))
   \<and> (s = ''production'' \<or> s = ''master'' \<or> s = ''develop''
        \<or> (\<exists>rest. s = ''project/'' @ rest)
       \<longrightarrow> events_of (deleteEnvironment rt i p (JString s) w) = []
           \<and> world_of (deleteEnvironment rt i p (JString s) w) = w)
   \<and> (\<not> (s = ''production'' \<or> s = ''master'' \<or> s = ''develop''
           \<or> (\<exists>rest. s = ''project/'' @ rest))
       \<longrightarrow> filter isExecFile (events_of (deleteEnvironment rt i p (JString s) w))
             = [ExecFile ''lagoon'' (deleteArguments i p (JString s))])"
proof (cases "s = ''production'' \<or> s = ''master'' \<or> s = ''develop''
              \<or> (\<exists>rest. s = ''project/'' @ rest)")
  case True
  then have "deletionProtected (JString s) = Inr True"
    by (simp add: deletionProtected_string)
  from deleteEnvironment_protected [OF this, of rt i p w] True
  show ?thesis
    by (simp add: deletionProtected_string result_of_triple events_of_triple world_of_triple)
next
  case False
  then have "deletionProtected (JString s) = Inr False"
    by (simp add: deletionProtected_string)
  from deleteEnvironment_unprotected [OF this, of rt i p w] False
  show ?thesis
    by (simp add: deletionProtected_string)
qed

theorem C2_protected_environment_not_deleted_witness:
  "result_of (deleteEnvironment exampleRuntime (JString ''i'') (JString ''p'')
       (JString ''project/x'') 0)
     = Inl (Error ''Cannot delete protected environment: project/x'')
   \<and> events_of (deleteEnvironment exampleRuntime (JString ''i'') (JString ''p'')
       (JString ''project/x'') 0) = []
   \<and> world_of (deleteEnvironment exampleRuntime (JString ''i'') (JString ''p'')
       (JString ''project/x'') 0) = 0
   \<and> filter isExecFile (events_of (deleteEnvironment exampleRuntime (JString ''i'')
       (JString ''p'') (JString ''Production'') 0))
     = [ExecFile ''lagoon'' [JString ''-l'', JString ''i'', JString ''-p'', JString ''p'',
          JString ''delete'', JString ''environment'', JString ''--environment'',
          JString ''Production'', JString ''--force'', JString ''--output-json'']]
   \<and> filter isExecFile (events_of (deleteEnvironment exampleRuntime (JString ''i'')
       (JString ''p'') (JString []) 0))
     = [ExecFile ''lagoon'' [JString ''-l'', JString ''i'', JString ''-p'', JString ''p'',
          JString ''--force'', JString ''--output-json'']]"
  using C2_protected_environment_not_deleted [of "''project/x''" exampleRuntime
      "JString ''i''" "JString ''p''" 0]
    C2_protected_environment_not_deleted [of "''Production''" exampleRuntime
      "JString ''i''" "JString ''p''" 0]
    C2_protected_environment_not_deleted [of "[]" exampleRuntime
      "JString ''i''" "JString ''p''" 0]
  by (simp add: deleteArguments_def getArgs_def withJsonOutput_def withForce_def
      LagoonCommand_deleteEnvironment_def withProject_def withInstance_def
      new_LagoonCommand_def push_def)

text \<open>
  Claim C2 as stated fails where the name is \<open>null\<close> or \<open>undefined\<close>: the test reads
  \<open>environment.startsWith\<close> and throws a \<open>TypeError\<close>.
\<close>

theorem C2_check_throws_on_null:
  "deletionProtected JNull
     = Inl (TypeError (''Cannot read properties of null (reading '' @ quoted ''startsWith''
                       @ '')''))
   \<and> deletionProtected JUndefined
     = Inl (TypeError (''Cannot read properties of undefined (reading ''
                       @ quoted ''startsWith'' @ '')''))
   \<and> result_of (deleteEnvironment exampleRuntime (JString ''i'') (JString ''p'') JNull 0)
     = Inl (TypeError (''Cannot read properties of null (reading '' @ quoted ''startsWith''
                       @ '')''))"
  by (simp add: deletionProtected_def deleteEnvironment_def result_of_def)

subsection \<open>generateLoginLink\<close>

lemma generateLoginLink_protected:
  assumes "loginLinkProtected e"
  shows "generateLoginLink rt i p e w
         = (Inl (Error (''Cannot generate login link for protected environment: ''
                        @ ToString e)), [], w)"
  using assms by (simp add: generateLoginLink_def)

lemma generateLoginLink_eligible:
  assumes "\<not> loginLinkProtected e"
  shows "filter isExecFile (events_of (generateLoginLink rt i p e w))
           = [ExecFile ''lagoon'' (loginArguments i p e)]"
    and "result_of (generateLoginLink rt i p e w)
           \<noteq> Inl (Error (''Cannot generate login link for protected environment: ''
                         @ ToString e))"
proof -
  let ?c = "ssh (withEnvironment (withProject (withInstance new_LagoonCommand i) p) e)
              (JString ''drush user:unblock --uid=1 && drush uli'')"
  let ?a = "Some (''Generate Login Link for '' @ ToString e @ '' in '' @ ToString p)"
  obtain r evs w' where run: "execCommand rt ?c ?a w = (r, evs, w')"
    by (cases "execCommand rt ?c ?a w") auto
  have "filter isExecFile evs = [ExecFile (getBaseCommand ?c) (getArgs ?c)]"
    using execCommand_spawns [of rt ?c ?a w] run by (simp add: events_of_triple)
  then have evs: "filter isExecFile evs = [ExecFile ''lagoon'' (loginArguments i p e)]"
    by (simp add: lagoon_baseCommand loginArguments_def)
  show "filter isExecFile (events_of (generateLoginLink rt i p e w))
           = [ExecFile ''lagoon'' (loginArguments i p e)]"
    using assms run evs
    by (cases r) (simp_all add: generateLoginLink_def Let_def events_of_triple)
  show "result_of (generateLoginLink rt i p e w)
           \<noteq> Inl (Error (''Cannot generate login link for protected environment: ''
                         @ ToString e))"
    using assms run
    by (cases r) (simp_all add: generateLoginLink_def Let_def result_of_triple)
qed

text \<open>
  Claim C7. \<open>generateLoginLink\<close> throws its protection error exactly when the
  environment is \<open>production\<close> or \<open>master\<close>, before anything happens, and every
  environment it protects is protected from deletion too. For every other value the
  login command is started; among them \<open>develop\<close> and every name that starts with
  \<open>project/\<close>, which are protected from deletion.
\<close>

theorem C7_login_protection_narrower:
  "(result_of (generateLoginLink rt i p e w)
      = Inl (Error (''Cannot generate login link for protected environment: ''
                    @ ToString e)))
     = (e = JString ''production'' \<or> e = JString ''master'')
   \<and> (e = JString ''production'' \<or> e = JString ''master''
        \<longrightarrow> events_of (generateLoginLink rt i p e w) = []
            \<and> world_of (generateLoginLink rt i p e w) = w
            \<and> deletionProtected e = Inr True)
   \<and> (\<not> (e = JString ''production'' \<or> e = JString ''master'')
        \<longrightarrow> filter isExecFile (events_of (generateLoginLink rt i p e w))
              = [ExecFile ''lagoon'' (loginArguments i p e)])
   \<and> deletionProtected (JString ''develop'') = Inr True
   \<and> \<not> loginLinkProtected (JString ''develop'')
   \<and> deletionProtected (JString (''project/'' @ rest)) = Inr True
   \<and> \<not> loginLinkProtected (JString (''project/'' @ rest))"
proof (cases "e = JString ''production'' \<or> e = JString ''master''")
  case True
  then have "loginLinkProtected e" by (simp add: loginLinkProtected_def)
  from generateLoginLink_protected [OF this, of rt i p w] True
  show ?thesis
    by (auto simp: result_of_triple events_of_triple world_of_triple
        deletionProtected_string loginLinkProtected_def)
next
  case False
  then have "\<not> loginLinkProtected e" by (simp add: loginLinkProtected_def)
  from generateLoginLink_eligible [OF this, of rt i p w] False
  show ?thesis
    by (simp add: deletionProtected_string loginLinkProtected_def)
qed

theorem C7_login_protection_narrower_witness:
  "result_of (generateLoginLink exampleRuntime (JString ''i'') (JString ''p'')
      (JString ''master'') 0)
     = Inl (Error ''Cannot generate login link for protected environment: master'')
   \<and> events_of (generateLoginLink exampleRuntime (JString ''i'') (JString ''p'')
      (JString ''master'') 0) = []
   \<and> deletionProtected (JString ''master'') = Inr True
   \<and> filter isExecFile (events_of (generateLoginLink exampleRuntime (JString ''i'')
      (JString ''p'') (JString ''develop'') 0))
     = [ExecFile ''lagoon'' [JString ''-l'', JString ''i'', JString ''-p'', JString ''p'',
          JString ''-e'', JString ''develop'', JString ''ssh'', JString ''-C'',
          JString ''drush user:unblock --uid=1 && drush uli'']]
   \<and> deletionProtected (JString ''develop'') = Inr True"
  using C7_login_protection_narrower [of exampleRuntime "JString ''i''" "JString ''p''"
      "JString ''master''" 0]
    C7_login_protection_narrower [of exampleRuntime "JString ''i''" "JString ''p''"
      "JString ''develop''" 0]
  by (simp add: loginArguments_def getArgs_def ssh_def withEnvironment_def withProject_def
      withInstance_def new_LagoonCommand_def push_def)

subsection \<open>deployBranch\<close>

text \<open>The character class of the branch-name pattern, character by character.\<close>

lemma member_by_code: "c \<in> set s \<longleftrightarrow> (of_char c :: nat) \<in> set (map of_char s)"
  by (auto simp: image_iff)

lemma inRange_by_code:
  "inRange lo hi c \<longleftrightarrow> (of_char c :: nat) \<in> set [of_char lo..<Suc (of_char hi)]"
  by (simp only: inRange_def set_upt atLeastLessThan_iff less_Suc_eq_le)

lemma inRange_lower:
  "inRange CHR ''a'' CHR ''z'' c \<longleftrightarrow> c \<in> set ''abcdefghijklmnopqrstuvwxyz''"
  unfolding inRange_by_code member_by_code by (simp add: upt_rec)

lemma inRange_upper:
  "inRange CHR ''A'' CHR ''Z'' c \<longleftrightarrow> c \<in> set ''ABCDEFGHIJKLMNOPQRSTUVWXYZ''"
  unfolding inRange_by_code member_by_code by (simp add: upt_rec)

lemma inRange_digit:
  "inRange CHR ''0'' CHR ''9'' c \<longleftrightarrow> c \<in> set ''0123456789''"
  unfolding inRange_by_code member_by_code by (simp add: upt_rec)

lemma branchNameClass_characters:
  "branchNameClass c \<longleftrightarrow>
     c \<in> set (''abcdefghijklmnopqrstuvwxyz'' @ ''ABCDEFGHIJKLMNOPQRSTUVWXYZ''
              @ ''0123456789'' @ ''_./-'')"
  unfolding branchNameClass_def inRange_lower inRange_upper inRange_digit
  by (simp only: set_append Un_iff set_simps insert_iff empty_iff) simp

lemma branchNamePattern_test_iff:
  "branchNamePattern_test b \<longleftrightarrow>
     ToString b \<noteq> []
     \<and> set (ToString b)
         \<subseteq> set ''abcdefghijklmnopqrstuvwxyzABCDEFGHIJKLMNOPQRSTUVWXYZ0123456789_./-''"
proof -
  have "list_all branchNameClass s \<longleftrightarrow>
        set s \<subseteq> set ''abcdefghijklmnopqrstuvwxyzABCDEFGHIJKLMNOPQRSTUVWXYZ0123456789_./-''"
    for s
    by (induction s) (simp_all add: branchNameClass_characters)
  then show ?thesis by (simp add: branchNamePattern_test_def Let_def)
qed

lemma deployBranch_invalid:
  assumes "\<not> branchNamePattern_test b"
  shows "deployBranch rt i p b w
         = (Inl (Error (''Failed to deploy branch '' @ ToString b @ '': ''
                        @ message invalidBranchName)), [], w)"
  using assms by (simp add: deployBranch_def deployBranch_try_def)

lemma deployBranch_try_valid:
  assumes "branchNamePattern_test b"
  shows "filter isExecFile (events_of (deployBranch_try rt i p b w))
         = [ExecFile ''lagoon'' (deployArguments i p b)]"
proof -
  let ?c = "withJsonOutput (LagoonCommand_deployBranch
              (withProject (withInstance new_LagoonCommand i) p) b)"
  let ?a = "Some (''Deploy Branch '' @ ToString b @ '' to '' @ ToString p)"
  obtain r evs w' where run: "execCommand rt ?c ?a w = (r, evs, w')"
    by (cases "execCommand rt ?c ?a w") auto
  have "filter isExecFile evs = [ExecFile (getBaseCommand ?c) (getArgs ?c)]"
    using execCommand_spawns [of rt ?c ?a w] run by (simp add: events_of_triple)
  then have evs: "filter isExecFile evs = [ExecFile ''lagoon'' (deployArguments i p b)]"
    by (simp add: lagoon_baseCommand deployArguments_def)
  show ?thesis
    using assms run evs
    by (simp add: deployBranch_try_def Let_def events_of_triple split: sum.splits)
qed

lemma deployBranch_valid:
  assumes "branchNamePattern_test b"
  shows "filter isExecFile (events_of (deployBranch rt i p b w))
         = [ExecFile ''lagoon'' (deployArguments i p b)]"
proof -
  obtain r evs w' where run: "deployBranch_try rt i p b w = (r, evs, w')"
    by (cases "deployBranch_try rt i p b w") auto
  then show ?thesis
    using deployBranch_try_valid [OF assms, of rt i p w]
    by (cases r) (simp_all add: deployBranch_def events_of_triple)
qed

text \<open>
  Claim C3, amended. \<open>deployBranch\<close> accepts a branch exactly when its conversion to
  a string is not empty and every character of it is a letter, a digit or one of
  \<open>_ . / -\<close>. Then the deploy command is started. Otherwise the function throws the
  error of the invalid name, inside the error that its \<open>catch\<close> makes of it, and
  nothing has happened: no command has run, and the world is unchanged.
\<close>

theorem C3_branch_name_validated:
  "(ToString b \<noteq> []
      \<and> set (ToString b)
          \<subseteq> set ''abcdefghijklmnopqrstuvwxyzABCDEFGHIJKLMNOPQRSTUVWXYZ0123456789_./-''
     \<longrightarrow> filter isExecFile (events_of (deployBranch rt i p b w))
           = [ExecFile ''lagoon'' (deployArguments i p b)])
   \<and> (\<not> (ToString b \<noteq> []
          \<and> set (ToString b)
              \<subseteq> set ''abcdefghijklmnopqrstuvwxyzABCDEFGHIJKLMNOPQRSTUVWXYZ0123456789_./-'')
     \<longrightarrow> deployBranch rt i p b w
           = (Inl (Error (''Failed to deploy branch '' @ ToString b
                @ '': Invalid branch name. Branch names must contain only ''
                @ ''alphanumeric characters, slashes, underscores, hyphens, and periods.'')),
              [], w))"
proof (cases "branchNamePattern_test b")
  case True
  from deployBranch_valid [OF this, of rt i p w] True show ?thesis
    unfolding branchNamePattern_test_iff [symmetric] by simp
next
  case False
  from deployBranch_invalid [OF this, of rt i p w] False show ?thesis
    unfolding branchNamePattern_test_iff [symmetric] by (simp add: invalidBranchName_def)
qed

theorem C3_branch_name_validated_witness:
  "filter isExecFile (events_of (deployBranch exampleRuntime (JString ''i'') (JString ''p'')
       (JString ''feature/foo-bar.1'') 0))
     = [ExecFile ''lagoon'' [JString ''-l'', JString ''i'', JString ''-p'', JString ''p'',
          JString ''deploy'', JString ''branch'', JString ''--branch'',
          JString ''feature/foo-bar.1'', JString ''--output-json'']]
   \<and> deployBranch exampleRuntime (JString ''i'') (JString ''p'')
       (JString ''feature; rm -rf /'') 0
     = (Inl (Error (''Failed to deploy branch feature; rm -rf /''
           @ '': Invalid branch name. Branch names must contain only ''
           @ ''alphanumeric characters, slashes, underscores, hyphens, and periods.'')),
        [], 0)"
  using C3_branch_name_validated [of "JString ''feature/foo-bar.1''" exampleRuntime
      "JString ''i''" "JString ''p''" 0]
    C3_branch_name_validated [of "JString ''feature; rm -rf /''" exampleRuntime
      "JString ''i''" "JString ''p''" 0]
  by (simp add: deployArguments_def getArgs_def withJsonOutput_def
      LagoonCommand_deployBranch_def withProject_def withInstance_def
      new_LagoonCommand_def push_def)

text \<open>
  Claim C3 as stated fails at the empty name: every character of it is in the class,
  there being none, and \<open>deployBranch\<close> rejects it, since the pattern asks for one
  character or more.
\<close>

theorem C3_empty_name_rejected:
  "list_all branchNameClass (ToString (JString []))
   \<and> set (ToString (JString []))
       \<subseteq> set ''abcdefghijklmnopqrstuvwxyzABCDEFGHIJKLMNOPQRSTUVWXYZ0123456789_./-''
   \<and> deployBranch exampleRuntime (JString ''i'') (JString ''p'') (JString []) 0
     = (Inl (Error (''Failed to deploy branch ''
           @ '': Invalid branch name. Branch names must contain only ''
           @ ''alphanumeric characters, slashes, underscores, hyphens, and periods.'')),
        [], 0)"
  by (simp add: deployBranch_def deployBranch_try_def branchNamePattern_test_def
      invalidBranchName_def)

text \<open>
  Claim C10. When the branch is \<open>null\<close> or \<open>undefined\<close>, its conversion to a string,
  \<open>null\<close> or \<open>undefined\<close>, passes the pattern, so the error of the invalid name is not
  thrown. The configurator \<open>deployBranch\<close> adds nothing for a falsy value, so the one
  command that is started has the arguments of the instance and of the project and
  \<open>--output-json\<close>, and no token of the deploy verb.
\<close>

theorem C10_nullish_branch_deploys_nothing:
  assumes "b = JNull \<or> b = JUndefined"
  shows "(ToString b = ''null'' \<or> ToString b = ''undefined'')
       \<and> branchNamePattern_test b
       \<and> deployBranch_try rt i p b w \<noteq> (Inl invalidBranchName, [], w)
       \<and> filter isExecFile (events_of (deployBranch rt i p b w))
           = [ExecFile ''lagoon''
               ((if truthy i then [JString ''-l'', i] else [])
                @ (if truthy p then [JString ''-p'', p] else [])
                @ [JString ''--output-json''])]"
proof -
  from assms have valid: "branchNamePattern_test b"
    by (auto simp: branchNamePattern_test_def branchNameClass_characters)
  from assms have arguments: "deployArguments i p b
      = (if truthy i then [JString ''-l'', i] else [])
        @ (if truthy p then [JString ''-p'', p] else [])
        @ [JString ''--output-json'']"
    by (auto simp: deployArguments_def getArgs_def withJsonOutput_def
        LagoonCommand_deployBranch_def withProject_def withInstance_def
        new_LagoonCommand_def push_def)
  have "events_of (deployBranch_try rt i p b w) \<noteq> []"
    using deployBranch_try_valid [OF valid, of rt i p w] by auto
  then have "deployBranch_try rt i p b w \<noteq> (Inl invalidBranchName, [], w)"
    by (auto simp: events_of_def)
  with assms valid arguments deployBranch_valid [OF valid, of rt i p w] show ?thesis
    by auto
qed

theorem C10_nullish_branch_deploys_nothing_witness:
  "branchNamePattern_test JNull \<and> branchNamePattern_test JUndefined
   \<and> filter isExecFile (events_of (deployBranch exampleRuntime (JString ''i'')
       (JString ''p'') JNull 0))
     = [ExecFile ''lagoon'' [JString ''-l'', JString ''i'', JString ''-p'', JString ''p'',
          JString ''--output-json'']]
   \<and> filter isExecFile (events_of (deployBranch exampleRuntime (JString ''i'')
       (JString ''p'') JUndefined 0))
     = [ExecFile ''lagoon'' [JString ''-l'', JString ''i'', JString ''-p'', JString ''p'',
          JString ''--output-json'']]"
  using C10_nullish_branch_deploys_nothing [of JNull exampleRuntime
      "JString ''i''" "JString ''p''" 0]
    C10_nullish_branch_deploys_nothing [of JUndefined exampleRuntime
      "JString ''i''" "JString ''p''" 0]
  by simp

subsection \<open>gitUrlToGithubUrl\<close>

text \<open>
  A string that starts with \<open>git@github.com:\<close> contains \<open>github.com\<close>, so the
  function returns \<open>null\<close> for every falsy value and for every string that does not
  contain \<open>github.com\<close>.
\<close>

lemma startsWith_includes: "string_startsWith s p \<Longrightarrow> string_includes s p"
  by (cases s) (simp_all add: string_startsWith_def)

lemma string_includes_append: "string_includes (a @ p @ b) p"
proof (induction a)
  case Nil
  have "string_startsWith (p @ b) p" by (simp add: string_startsWith_def)
  then show ?case by (simp add: startsWith_includes)
next
  case (Cons c a)
  then show ?case by simp
qed

lemma startsWith_github_includes:
  assumes "string_startsWith s ''git@github.com:''"
  shows "string_includes s ''github.com''"
proof -
  from assms obtain rest where "s = ''git@github.com:'' @ rest"
    by (auto simp: string_startsWith_iff)
  then have "s = ''git@'' @ ''github.com'' @ ('':'' @ rest)" by simp
  then show ?thesis by (simp only: string_includes_append)
qed

lemma gitUrlToGithubUrl_absent:
  "(\<not> truthy v \<longrightarrow> gitUrlToGithubUrl v = Inr None)
   \<and> (\<not> string_includes s ''github.com'' \<longrightarrow> gitUrlToGithubUrl (JString s) = Inr None)"
  using startsWith_github_includes [of s]
  by (auto simp: gitUrlToGithubUrl_def)

text \<open>
  Claim C8. The claim says that a trailing \<open>.git\<close> is stripped and the rest of the
  URL is kept. \<open>replace('.git', '')\<close> removes the first \<open>.git\<close> from the left instead,
  wherever it is: the repository \<open>org/org.github.io\<close> loses the \<open>.git\<close> of \<open>.github\<close>
  and keeps the suffix, and an HTTPS URL that has no suffix to strip is changed. At
  \<open>git@github.com:org/repo.git\<close>, where the only \<open>.git\<close> is the suffix, the result
  is the claimed one.
\<close>

theorem C8_first_occurrence_removed:
  "gitUrlToGithubUrl (JString ''git@github.com:org/org.github.io.git'')
     = Inr (Some ''https://github.com/org/orghub.io.git'')
   \<and> gitUrlToGithubUrl (JString ''https://github.com/org/org.github.io'')
     = Inr (Some ''https://github.com/org/orghub.io'')
   \<and> gitUrlToGithubUrl (JString ''git@github.com:org/repo.git'')
     = Inr (Some ''https://github.com/org/repo'')"
  by (simp add: gitUrlToGithubUrl_def string_startsWith_def)

section \<open>Properties of the deletion loop\<close>

text \<open>Nothing below the loop touches the spinner.\<close>

lemma execute_no_spinner: "filter isSpinner (events_of (execute ex c a w)) = []"
  by (simp add: execute_def execute_catch_def events_of_def Let_def
      split: prod.splits sum.splits option.splits)

lemma deleteEnvironment_try_no_spinner:
  "filter isSpinner (events_of (deleteEnvironment_try rt i p e w)) = []"
proof -
  let ?c = "withJsonOutput (withForce (LagoonCommand_deleteEnvironment
              (withProject (withInstance new_LagoonCommand i) p) e))"
  let ?a = "Some (''Delete Environment '' @ ToString e @ '' from '' @ ToString p)"
  obtain r evs w' where run: "execCommand rt ?c ?a w = (r, evs, w')"
    by (cases "execCommand rt ?c ?a w") auto
  have "filter isSpinner evs = []"
    using execute_no_spinner [of "executor rt" ?c ?a w] run
    by (simp add: execCommand_def events_of_triple)
  with run show ?thesis
    by (simp add: deleteEnvironment_try_def Let_def events_of_triple split: sum.splits)
qed

lemma deleteEnvironment_no_spinner:
  "filter isSpinner (events_of (deleteEnvironment rt i p e w)) = []"
proof -
  obtain r evs w' where run: "deleteEnvironment_try rt i p e w = (r, evs, w')"
    by (cases "deleteEnvironment_try rt i p e w") auto
  with deleteEnvironment_try_no_spinner [of rt i p e w] show ?thesis
    by (cases r)
       (simp_all add: deleteEnvironment_def events_of_triple split: sum.splits bool.splits)
qed

lemma isSpinner_messages [simp]:
  "isSpinner (deletingMessage env)" "isSpinner (deletionReport env r)"
  "\<not> isExecFile (deletingMessage env)" "\<not> isExecFile (deletionReport env r)"
  by (simp_all add: deletingMessage_def deletionReport_def split: sum.splits)

lemma loop_spinner:
  "filter isSpinner (fst (deleteEnvironmentFlow_loop rt i p envs w))
   = concat (map (\<lambda>(env, r). [deletingMessage env, deletionReport env r])
       (zip envs (deletionResults rt i p envs w)))"
proof (induction envs arbitrary: w)
  case Nil
  show ?case by simp
next
  case (Cons env envs)
  obtain r evs w1 where one: "deleteEnvironment rt i p env w = (r, evs, w1)"
    by (cases "deleteEnvironment rt i p env w") auto
  obtain rest w2 where more: "deleteEnvironmentFlow_loop rt i p envs w1 = (rest, w2)"
    by (cases "deleteEnvironmentFlow_loop rt i p envs w1") auto
  have quiet: "filter isSpinner evs = []"
    using deleteEnvironment_no_spinner [of rt i p env w] one by (simp add: events_of_triple)
  from Cons.IH [of w1] more
  have "filter isSpinner rest
        = concat (map (\<lambda>(env, r). [deletingMessage env, deletionReport env r])
            (zip envs (deletionResults rt i p envs w1)))"
    by simp
  with one more quiet show ?case
    by (simp add: result_of_triple world_of_triple)
qed

lemma deletionResults_length: "length (deletionResults rt i p envs w) = length envs"
  by (induction envs arbitrary: w) simp_all

lemma filter_either:
  "filter P xs = [] \<Longrightarrow> filter (\<lambda>e. P e \<or> Q e) xs = filter Q xs"
  by (induction xs) (auto split: if_splits)

lemma loop_spawns:
  assumes "list_all (\<lambda>env. deletionProtected env = Inr False) envs"
  shows "filter (\<lambda>e. isSpinner e \<or> isExecFile e)
           (fst (deleteEnvironmentFlow_loop rt i p envs w))
         = concat (map (\<lambda>(env, r). [deletingMessage env,
                                     ExecFile ''lagoon'' (deleteArguments i p env),
                                     deletionReport env r])
             (zip envs (deletionResults rt i p envs w)))"
  using assms
proof (induction envs arbitrary: w)
  case Nil
  show ?case by simp
next
  case (Cons env envs)
  obtain r evs w1 where one: "deleteEnvironment rt i p env w = (r, evs, w1)"
    by (cases "deleteEnvironment rt i p env w") auto
  obtain rest w2 where more: "deleteEnvironmentFlow_loop rt i p envs w1 = (rest, w2)"
    by (cases "deleteEnvironmentFlow_loop rt i p envs w1") auto
  from Cons.prems have eligible: "deletionProtected env = Inr False"
    and others: "list_all (\<lambda>env. deletionProtected env = Inr False) envs"
    by simp_all
  have quiet: "filter isSpinner evs = []"
    using deleteEnvironment_no_spinner [of rt i p env w] one by (simp add: events_of_triple)
  have "filter isExecFile evs = [ExecFile ''lagoon'' (deleteArguments i p env)]"
    using deleteEnvironment_unprotected(1) [OF eligible, of rt i p w] one
    by (simp add: events_of_triple)
  with filter_either [OF quiet, of isExecFile]
  have started: "filter (\<lambda>e. isSpinner e \<or> isExecFile e) evs
                 = [ExecFile ''lagoon'' (deleteArguments i p env)]"
    by simp
  from Cons.IH [OF others, of w1] more
  have "filter (\<lambda>e. isSpinner e \<or> isExecFile e) rest
        = concat (map (\<lambda>(env, r). [deletingMessage env,
                                     ExecFile ''lagoon'' (deleteArguments i p env),
                                     deletionReport env r])
             (zip envs (deletionResults rt i p envs w1)))"
    by simp
  with one more started show ?case
    by (simp add: result_of_triple world_of_triple)
qed

text \<open>
  Claim C9. Once the user has confirmed, the loop takes the selected environments in
  their order, whatever each deletion gives. The events of the spinner are, for each
  environment in turn, its start and then its report, \<open>succeed\<close> or \<open>fail\<close> with
  the message of the error, and the report is that of the environment's own
  deletion, run in the world that the deletions before it left. When every selected
  name passes the protection test, as the names offered for selection do, the
  deletion command of each environment is started between its start and its
  report, so before the next environment's start.
\<close>

theorem C9_every_deletion_attempted_and_reported:
  "filter isSpinner (fst (deleteEnvironmentFlow_confirmed rt i p envs True w))
     = concat (map (\<lambda>(env, r). [deletingMessage env, deletionReport env r])
         (zip envs (deletionResults rt i p envs w)))
   \<and> length (deletionResults rt i p envs w) = length envs
   \<and> (list_all (\<lambda>env. deletionProtected env = Inr False) envs
        \<longrightarrow> filter (\<lambda>e. isSpinner e \<or> isExecFile e)
              (fst (deleteEnvironmentFlow_confirmed rt i p envs True w))
            = concat (map (\<lambda>(env, r). [deletingMessage env,
                                        ExecFile ''lagoon'' (deleteArguments i p env),
                                        deletionReport env r])
                (zip envs (deletionResults rt i p envs w))))"
  by (simp add: deleteEnvironmentFlow_confirmed_def loop_spinner deletionResults_length
      loop_spawns)

text \<open>
  The scenario of the specification: \<open>pr-1\<close> and \<open>pr-2\<close> are selected, the deletion
  of \<open>pr-1\<close> fails and that of \<open>pr-2\<close> succeeds.
\<close>

lemma example_delete_pr1:
  "deleteEnvironment exampleRuntime (JString ''i'') (JString ''p'') (JString ''pr-1'') n
   = (Inl (Error ''Failed to delete environment pr-1: Command failed''),
      [ConsoleLog (''Executing: lagoon -l i -p p delete environment --environment pr-1''
                   @ '' --force --output-json''),
       ExecFile ''lagoon'' (deleteArguments (JString ''i'') (JString ''p'') (JString ''pr-1'')),
       LogError ''Delete Environment pr-1 from p''
         (''lagoon -l i -p p delete environment --environment pr-1''
          @ '' --force --output-json'')
         (Error ''Command failed'')],
      Suc n)"
  by (simp add: deleteEnvironment_def deletionProtected_def string_startsWith_def
      deleteEnvironment_try_def execCommand_def execute_def execute_catch_def executor_def exampleRuntime_def
      exampleExecFile_def getBaseCommand_def getArgs_def
      toString_def deleteArguments_def withJsonOutput_def withForce_def
      LagoonCommand_deleteEnvironment_def withProject_def withInstance_def
      new_LagoonCommand_def push_def Let_def)

lemma example_delete_pr2:
  "deleteEnvironment exampleRuntime (JString ''i'') (JString ''p'') (JString ''pr-2'') n
   = (Inr True,
      [ConsoleLog (''Executing: lagoon -l i -p p delete environment --environment pr-2''
                   @ '' --force --output-json''),
       ExecFile ''lagoon'' (deleteArguments (JString ''i'') (JString ''p'') (JString ''pr-2'')),
       LogAction ''Delete Environment pr-2 from p''
         (''lagoon -l i -p p delete environment --environment pr-2''
          @ '' --force --output-json'')
         ''Success'',
       ConsoleLog ''Environment pr-2 deleted successfully''],
      Suc n)"
  by (simp add: deleteEnvironment_def deletionProtected_def string_startsWith_def
      deleteEnvironment_try_def execCommand_def execute_def execute_catch_def executor_def exampleRuntime_def
      exampleExecFile_def getBaseCommand_def getArgs_def
      toString_def deleteArguments_def withJsonOutput_def withForce_def
      LagoonCommand_deleteEnvironment_def withProject_def withInstance_def
      new_LagoonCommand_def push_def Let_def)

theorem C9_every_deletion_attempted_and_reported_witness:
  "filter (\<lambda>e. isSpinner e \<or> isExecFile e)
     (fst (deleteEnvironmentFlow_confirmed exampleRuntime (JString ''i'') (JString ''p'')
        [JString ''pr-1'', JString ''pr-2''] True 0))
   = [SpinnerStart ''Deleting environment pr-1...'',
      ExecFile ''lagoon'' [JString ''-l'', JString ''i'', JString ''-p'', JString ''p'',
        JString ''delete'', JString ''environment'', JString ''--environment'',
        JString ''pr-1'', JString ''--force'', JString ''--output-json''],
      SpinnerFail (''Failed to delete environment pr-1: ''
                   @ ''Failed to delete environment pr-1: Command failed''),
      SpinnerStart ''Deleting environment pr-2...'',
      ExecFile ''lagoon'' [JString ''-l'', JString ''i'', JString ''-p'', JString ''p'',
        JString ''delete'', JString ''environment'', JString ''--environment'',
        JString ''pr-2'', JString ''--force'', JString ''--output-json''],
      SpinnerSucceed ''Environment pr-2 deleted successfully.'']"
  using C9_every_deletion_attempted_and_reported [of exampleRuntime "JString ''i''"
      "JString ''p''" "[JString ''pr-1'', JString ''pr-2'']" 0]
  by (simp add: example_delete_pr1 example_delete_pr2 result_of_triple world_of_triple
      deletionProtected_def string_startsWith_def deletingMessage_def deletionReport_def
      deleteArguments_def getArgs_def withJsonOutput_def withForce_def
      LagoonCommand_deleteEnvironment_def withProject_def withInstance_def
      new_LagoonCommand_def push_def)

end
